theory Spec2Isabelle
  imports Main
begin

section \<open>JavaScript values\<close>

text \<open>
  The values that flow through \<^verbatim>\<open>src/index.js\<close>: candidates, events, session
  descriptions, messages and caller callbacks. An object is the ordered list of its own
  properties; a function object is opaque and carries an identifier only.
\<close>

datatype jsval =
    JUndefined
  | JNull
  | JBool bool
  | JNum int
  | JNaN
  | JStr string
  | JFun nat
  | JObj "(string \<times> jsval) list"

text \<open>ToBoolean, as used by \<^verbatim>\<open>if(candidate)\<close>, \<^verbatim>\<open>if(fn)\<close> and \<^verbatim>\<open>target && ...\<close>.\<close>

fun truthy :: "jsval \<Rightarrow> bool" where
  "truthy JUndefined = False"
| "truthy JNull = False"
| "truthy (JBool b) = b"
| "truthy (JNum n) = (n \<noteq> 0)"
| "truthy JNaN = False"
| "truthy (JStr s) = (s \<noteq> [])"
| "truthy (JFun f) = True"
| "truthy (JObj fs) = True"

datatype error = TypeError

text \<open>
  Property read \<^verbatim>\<open>v.k\<close>. Reading a property of \<^verbatim>\<open>null\<close> or \<^verbatim>\<open>undefined\<close> raises a
  TypeError. The source reads only \<^verbatim>\<open>candidate\<close>, \<^verbatim>\<open>currentTarget\<close>,
  \<^verbatim>\<open>iceGatheringState\<close>, \<^verbatim>\<open>channel\<close>, \<^verbatim>\<open>stream\<close> and \<^verbatim>\<open>sdp\<close>, names that no
  primitive and no function object defines, so such a read gives \<^verbatim>\<open>undefined\<close>.
\<close>

fun get_prop :: "jsval \<Rightarrow> string \<Rightarrow> error + jsval" where
  "get_prop JUndefined k = Inl TypeError"
| "get_prop JNull k = Inl TypeError"
| "get_prop (JObj fs) k = Inr (case map_of fs k of None \<Rightarrow> JUndefined | Some v \<Rightarrow> v)"
| "get_prop v k = Inr JUndefined"

fun put_field :: "string \<Rightarrow> jsval \<Rightarrow> (string \<times> jsval) list \<Rightarrow> (string \<times> jsval) list" where
  "put_field k v [] = [(k, v)]"
| "put_field k v ((k', v') # fs) =
     (if k' = k then (k, v) # fs else (k', v') # put_field k v fs)"

text \<open>
  Property write \<^verbatim>\<open>v.k = x\<close> (the file is not in strict mode: a write to a primitive is
  silently dropped). The result is the value as it is after the write. Function objects
  are opaque here, so a write to one is not recorded.
\<close>

fun set_prop :: "jsval \<Rightarrow> string \<Rightarrow> jsval \<Rightarrow> error + jsval" where
  "set_prop JUndefined k x = Inl TypeError"
| "set_prop JNull k x = Inl TypeError"
| "set_prop (JObj fs) k x = Inr (JObj (put_field k x fs))"
| "set_prop v k x = Inr v"


section \<open>The session object and its collaborators\<close>

text \<open>
  The transport primitive, the event bus (\<^verbatim>\<open>emitter\<close>), its queue companion
  (\<^verbatim>\<open>emitter-queue\<close>) and the caller's callbacks are outside the file. Every call the
  session makes into one of them is appended to a log, in program order.
  \<^verbatim>\<open>CreateOffer fn type opts\<close> and \<^verbatim>\<open>CreateAnswer fn type opts\<close> record the request
  together with what its two callbacks close over.
\<close>

datatype native = NewCandidate jsval | NewSession jsval

datatype action =
    Emit string "jsval list"
  | Queue string "jsval list"
  | NewPeerConnection
  | AddStream jsval
  | AddIceCandidate native
  | SetLocalDescription native
  | SetRemoteDescription native
  | CreateOffer jsval string jsval
  | CreateAnswer jsval string jsval
  | CreateDataChannel string
  | Channel jsval
  | Call nat "jsval list"

text \<open>
  \<^verbatim>\<open>this.connection\<close>: which callback slots the session has assigned, and how many data
  channels it has asked for.
\<close>

record rtc_connection =
  onaddstream :: bool
  onicecandidate :: bool
  ongatheringchange :: bool
  ondatachannel :: bool
  channels :: nat

datatype chan = Chan jsval

record peer =
  connection :: "rtc_connection option"
  codecs :: "(jsval \<Rightarrow> jsval) list"
  channel :: "chan option"
  log :: "action list"

definition emit :: "string \<Rightarrow> jsval list \<Rightarrow> peer \<Rightarrow> peer" where
  "emit topic args p = p\<lparr>log := log p @ [Emit topic args]\<rparr>"

definition queue :: "string \<Rightarrow> jsval list \<Rightarrow> peer \<Rightarrow> peer" where
  "queue topic args p = p\<lparr>log := log p @ [Queue topic args]\<rparr>"

text \<open>
  Modelled from the spec: \<^verbatim>\<open>lib/channel\<close>, the module that \<^verbatim>\<open>src/index.js\<close> requires as
  \<^verbatim>\<open>channel\<close> and whose source is missing. The spec: it wraps the raw channel with the
  observable message/queue contract and associates it with the session. The call is
  logged and the wrapper returned.
\<close>

definition lib_channel :: "jsval \<Rightarrow> peer \<Rightarrow> chan \<times> peer" where
  "lib_channel raw p = (Chan raw, p\<lparr>log := log p @ [Channel raw]\<rparr>)"

text \<open>\<^verbatim>\<open>this.connection.createDataChannel(label)\<close>: the raw channel the transport hands back.\<close>

definition createDataChannel :: "string \<Rightarrow> peer \<Rightarrow> error + (jsval \<times> peer)" where
  "createDataChannel label p =
     (case connection p of
        None \<Rightarrow> Inl TypeError
      | Some c \<Rightarrow>
          Inr (JObj [(''label'', JStr label), (''id'', JNum (int (channels c)))],
               p\<lparr>connection := Some (c\<lparr>channels := Suc (channels c)\<rparr>),
                 log := log p @ [CreateDataChannel label]\<rparr>))"

text \<open>A call \<^verbatim>\<open>fn(args)\<close> of a caller-supplied value.\<close>

fun call :: "jsval \<Rightarrow> jsval list \<Rightarrow> peer \<Rightarrow> error + peer" where
  "call (JFun f) args p = Inr (p\<lparr>log := log p @ [Call f args]\<rparr>)"
| "call v args p = Inl TypeError"


section \<open>The operations of \<^verbatim>\<open>src/index.js\<close>\<close>

definition Peer :: peer where
  "Peer = \<lparr>connection = None, codecs = [], channel = None, log = []\<rparr>"

subsection \<open>The callbacks installed by \<^verbatim>\<open>create\<close>\<close>

definition onaddstream_fn :: "jsval \<Rightarrow> peer \<Rightarrow> error + peer" where
  "onaddstream_fn event p =
     (case get_prop event ''stream'' of
        Inl e \<Rightarrow> Inl e
      | Inr stream \<Rightarrow> Inr (emit ''remote stream'' [stream] p))"

definition onicecandidate_fn :: "jsval \<Rightarrow> peer \<Rightarrow> error + peer" where
  "onicecandidate_fn event p =
     (case get_prop event ''candidate'' of
        Inl e \<Rightarrow> Inl e
      | Inr candidate \<Rightarrow>
          if truthy candidate then Inr (emit ''candidate'' [candidate, event] p)
          else Inr (queue ''ready'' [] p))"

definition ongatheringchange_fn :: "jsval \<Rightarrow> peer \<Rightarrow> error + peer" where
  "ongatheringchange_fn event p =
     (case get_prop event ''currentTarget'' of
        Inl e \<Rightarrow> Inl e
      | Inr target \<Rightarrow>
          if truthy target then
            (case get_prop target ''iceGatheringState'' of
               Inl e \<Rightarrow> Inl e
             | Inr st \<Rightarrow> if st = JStr ''complete'' then Inr (queue ''ready'' [] p) else Inr p)
          else Inr p)"

definition create :: "peer \<Rightarrow> peer" where
  "create p =
     emit ''create'' []
       (p\<lparr>connection := Some \<lparr>onaddstream = True, onicecandidate = True,
                               ongatheringchange = True, ondatachannel = False,
                               channels = 0\<rparr>,
          log := log p @ [NewPeerConnection]\<rparr>)"

subsection \<open>Streams, candidates, descriptions\<close>

definition stream :: "jsval \<Rightarrow> peer \<Rightarrow> error + peer" where
  "stream s p =
     (case connection p of
        None \<Rightarrow> Inl TypeError
      | Some c \<Rightarrow> Inr (queue ''local stream'' [s] (p\<lparr>log := log p @ [AddStream s]\<rparr>)))"

definition ice :: "jsval \<Rightarrow> peer \<Rightarrow> error + peer" where
  "ice candidate p =
     (if truthy candidate then
        (case connection p of
           None \<Rightarrow> Inl TypeError
         | Some c \<Rightarrow> Inr (p\<lparr>log := log p @ [AddIceCandidate (NewCandidate candidate)]\<rparr>))
      else Inr p)"

text \<open>
  The loop of \<^verbatim>\<open>local\<close>:
  \<^verbatim>\<open>for(var i = 0, l = this.codecs.length; i < l; i++) sdp = this.codecs[i](sdp);\<close>
  A codec is a function of the description text; it is taken to be pure.
\<close>

function codecs_loop :: "(jsval \<Rightarrow> jsval) list \<Rightarrow> nat \<Rightarrow> nat \<Rightarrow> jsval \<Rightarrow> jsval" where
  "codecs_loop cs i l sdp = (if i < l then codecs_loop cs (Suc i) l ((cs ! i) sdp) else sdp)"
  by pat_completeness auto
termination
  by (relation "measure (\<lambda>(cs, i, l, sdp). l - i)") auto

declare codecs_loop.simps [simp del]

text \<open>
  \<^verbatim>\<open>local\<close> rewrites \<^verbatim>\<open>session.sdp\<close> in place: the description as it is afterwards is
  returned next to the session, since the caller of \<^verbatim>\<open>local\<close> goes on using it.
\<close>

definition local_fn :: "jsval \<Rightarrow> peer \<Rightarrow> error + (jsval \<times> peer)" where
  "local_fn session p =
     (case get_prop session ''sdp'' of
        Inl e \<Rightarrow> Inl e
      | Inr sdp0 \<Rightarrow>
          (let sdp = codecs_loop (codecs p) 0 (length (codecs p)) sdp0 in
           case set_prop session ''sdp'' sdp of
             Inl e \<Rightarrow> Inl e
           | Inr session' \<Rightarrow>
               (case connection p of
                  None \<Rightarrow> Inl TypeError
                | Some c \<Rightarrow>
                    Inr (session',
                         p\<lparr>log := log p @ [SetLocalDescription (NewSession session')]\<rparr>))))"

definition remote :: "jsval \<Rightarrow> peer \<Rightarrow> error + peer" where
  "remote session p =
     (case connection p of
        None \<Rightarrow> Inl TypeError
      | Some c \<Rightarrow> Inr (p\<lparr>log := log p @ [SetRemoteDescription (NewSession session)]\<rparr>))"

subsection \<open>Offer and answer\<close>

text \<open>The two callbacks that \<^verbatim>\<open>session\<close> hands to \<^verbatim>\<open>createOffer\<close>/\<^verbatim>\<open>createAnswer\<close>.\<close>

definition session_success :: "jsval \<Rightarrow> string \<Rightarrow> jsval \<Rightarrow> peer \<Rightarrow> error + peer" where
  "session_success fn type offer p =
     (case local_fn offer p of
        Inl e \<Rightarrow> Inl e
      | Inr (offer', p1) \<Rightarrow>
          (case (if truthy fn then call fn [offer'] p1 else Inr p1) of
             Inl e \<Rightarrow> Inl e
           | Inr p2 \<Rightarrow> Inr (queue type [offer'] p2)))"

definition session_failure :: "jsval \<Rightarrow> peer \<Rightarrow> error + peer" where
  "session_failure e p = Inr (emit ''error'' [e] p)"

definition session :: "jsval \<Rightarrow> jsval \<Rightarrow> string \<Rightarrow> peer \<Rightarrow> error + peer" where
  "session fn opts type p =
     (let p1 = emit (''before '' @ type) [] p in
      case connection p1 of
        None \<Rightarrow> Inl TypeError
      | Some c \<Rightarrow>
          Inr (p1\<lparr>log := log p1 @
                 [if type = ''offer'' then CreateOffer fn type opts
                  else CreateAnswer fn type opts]\<rparr>))"

definition offer :: "jsval \<Rightarrow> jsval \<Rightarrow> peer \<Rightarrow> error + peer" where
  "offer fn constraints p =
     (case createDataChannel ''master'' p of
        Inl e \<Rightarrow> Inl e
      | Inr (raw, p1) \<Rightarrow>
          (let (c, p2) = lib_channel raw p1 in
           session fn constraints ''offer'' (p2\<lparr>channel := Some c\<rparr>)))"

definition ondatachannel_fn :: "jsval \<Rightarrow> peer \<Rightarrow> error + peer" where
  "ondatachannel_fn event p =
     (case get_prop event ''channel'' of
        Inl e \<Rightarrow> Inl e
      | Inr raw \<Rightarrow> (let (c, p1) = lib_channel raw p in Inr (p1\<lparr>channel := Some c\<rparr>)))"

definition answer :: "jsval \<Rightarrow> jsval \<Rightarrow> peer \<Rightarrow> error + peer" where
  "answer fn constraints p =
     (case connection p of
        None \<Rightarrow> Inl TypeError
      | Some c \<Rightarrow>
          session fn constraints ''answer''
            (p\<lparr>connection := Some (c\<lparr>ondatachannel := True\<rparr>)\<rparr>))"

subsection \<open>Codecs and messages\<close>

definition codec :: "(jsval \<Rightarrow> jsval) \<Rightarrow> peer \<Rightarrow> peer" where
  "codec fn p = p\<lparr>codecs := codecs p @ [fn]\<rparr>"

definition send :: "jsval \<Rightarrow> peer \<Rightarrow> error + peer" where
  "send msg p = Inr (queue ''channel message'' [msg] p)"


section \<open>The transport primitive's notifications\<close>

text \<open>
  The transport primitive calls whatever the session has put into a callback slot, with
  an event object; an empty slot means nothing happens.
\<close>

datatype notification =
    IceCandidate jsval
  | GatheringChange jsval
  | DataChannel jsval
  | RemoteStream jsval

fun fire :: "notification \<Rightarrow> peer \<Rightarrow> error + peer" where
  "fire (IceCandidate ev) p =
     (case connection p of
        None \<Rightarrow> Inr p
      | Some c \<Rightarrow> if onicecandidate c then onicecandidate_fn ev p else Inr p)"
| "fire (GatheringChange ev) p =
     (case connection p of
        None \<Rightarrow> Inr p
      | Some c \<Rightarrow> if ongatheringchange c then ongatheringchange_fn ev p else Inr p)"
| "fire (DataChannel ev) p =
     (case connection p of
        None \<Rightarrow> Inr p
      | Some c \<Rightarrow> if ondatachannel c then ondatachannel_fn ev p else Inr p)"
| "fire (RemoteStream ev) p =
     (case connection p of
        None \<Rightarrow> Inr p
      | Some c \<Rightarrow> if onaddstream c then onaddstream_fn ev p else Inr p)"

fun fire_all :: "notification list \<Rightarrow> peer \<Rightarrow> error + peer" where
  "fire_all [] p = Inr p"
| "fire_all (n # ns) p = (case fire n p of Inl e \<Rightarrow> Inl e | Inr p' \<Rightarrow> fire_all ns p')"

text \<open>
  Everything the transport primitive can call back into the session: a notification, or
  the success or the error callback of a \<^verbatim>\<open>createOffer\<close>/\<^verbatim>\<open>createAnswer\<close> request
  (\<^verbatim>\<open>Success fn type description\<close> is the success callback that closes over \<^verbatim>\<open>fn\<close>
  and \<^verbatim>\<open>type\<close>, called with the description the transport primitive has produced).
\<close>

datatype callback =
    Notification notification
  | Success jsval string jsval
  | Failure jsval

fun deliver :: "callback \<Rightarrow> peer \<Rightarrow> error + peer" where
  "deliver (Notification n) p = fire n p"
| "deliver (Success fn type description) p = session_success fn type description p"
| "deliver (Failure e) p = session_failure e p"

fun deliver_all :: "callback list \<Rightarrow> peer \<Rightarrow> error + peer" where
  "deliver_all [] p = Inr p"
| "deliver_all (cb # cbs) p =
     (case deliver cb p of Inl e \<Rightarrow> Inl e | Inr p' \<Rightarrow> deliver_all cbs p')"


text \<open>Running one call after another; a raise ends the run.\<close>

definition and_then :: "error + 'a \<Rightarrow> ('a \<Rightarrow> error + 'b) \<Rightarrow> error + 'b" where
  "and_then m f = (case m of Inl e \<Rightarrow> Inl e | Inr x \<Rightarrow> f x)"

datatype negotiation = Offer jsval jsval | Answer jsval jsval

fun negotiate :: "negotiation \<Rightarrow> peer \<Rightarrow> error + peer" where
  "negotiate (Offer fn constraints) p = offer fn constraints p"
| "negotiate (Answer fn constraints) p = answer fn constraints p"

fun negotiate_all :: "negotiation list \<Rightarrow> peer \<Rightarrow> error + peer" where
  "negotiate_all [] p = Inr p"
| "negotiate_all (n # ns) p = and_then (negotiate n p) (negotiate_all ns)"


section \<open>Notions used by the properties\<close>

text \<open>
  The pipeline as section 4.2 of the specification words it: \<^verbatim>\<open>run(text)\<close> folds all
  registered stages left-to-right over the input, each stage's output feeding the next
  stage's input.
\<close>

definition run_spec :: "(jsval \<Rightarrow> jsval) list \<Rightarrow> jsval \<Rightarrow> jsval" where
  "run_spec stages text = foldl (\<lambda>t stage. stage t) text stages"

text \<open>What a property read yields when it does not raise.\<close>

definition field :: "jsval \<Rightarrow> string \<Rightarrow> jsval" where
  "field v k = (case get_prop v k of Inl e \<Rightarrow> JUndefined | Inr x \<Rightarrow> x)"

fun is_object :: "jsval \<Rightarrow> bool" where
  "is_object (JObj fs) = True"
| "is_object v = False"

fun event_of :: "notification \<Rightarrow> jsval" where
  "event_of (IceCandidate ev) = ev"
| "event_of (GatheringChange ev) = ev"
| "event_of (DataChannel ev) = ev"
| "event_of (RemoteStream ev) = ev"

text \<open>
  A completion signal: a candidate-discovery callback with a falsy candidate, or a
  gathering-state change whose target reports \<^verbatim>\<open>complete\<close>.
\<close>

fun completes :: "notification \<Rightarrow> bool" where
  "completes (IceCandidate ev) = (\<not> truthy (field ev ''candidate''))"
| "completes (GatheringChange ev) =
     (truthy (field ev ''currentTarget'') \<and>
      field (field ev ''currentTarget'') ''iceGatheringState'' = JStr ''complete'')"
| "completes n = False"

definition ready_count :: "action list \<Rightarrow> nat" where
  "ready_count l = length (filter (\<lambda>a. a = Queue ''ready'' []) l)"

fun is_request :: "action \<Rightarrow> bool" where
  "is_request (CreateOffer fn type opts) = True"
| "is_request (CreateAnswer fn type opts) = True"
| "is_request a = False"

definition requests :: "action list \<Rightarrow> nat" where
  "requests l = length (filter is_request l)"

fun is_binding :: "action \<Rightarrow> bool" where
  "is_binding (Channel raw) = True"
| "is_binding a = False"

definition bindings :: "action list \<Rightarrow> nat" where
  "bindings l = length (filter is_binding l)"

fun is_offer :: "negotiation \<Rightarrow> bool" where
  "is_offer (Offer fn constraints) = True"
| "is_offer (Answer fn constraints) = False"

text \<open>
  Modelled from the spec: the event bus's queue companion (\<^verbatim>\<open>emitter-queue\<close>) and the
  message side of \<^verbatim>\<open>lib/channel\<close>, the sources of which are both missing.
  Section 4.5: a queued event is emitted immediately and retained in \<^verbatim>\<open>pendingQueue\<close>;
  an observer that subscribes later is handed the backlog in original order, each
  observer the full backlog once. Section 6: an outbound message queued while no channel
  exists is delivered once a channel exists. So a bound channel is an observer of
  \<^verbatim>\<open>channel message\<close>: it receives the backlog when it is bound and every later message
  as it is queued. \<^verbatim>\<open>delivered\<close> lists the (channel, payload) pairs in delivery order.
\<close>

record bus =
  pendingQueue :: "(string \<times> jsval list) list"
  bound :: "jsval list"
  delivered :: "(jsval \<times> jsval list) list"

fun bus_step :: "bus \<Rightarrow> action \<Rightarrow> bus" where
  "bus_step b (Queue topic args) =
     b\<lparr>pendingQueue := pendingQueue b @ [(topic, args)],
       delivered := delivered b @
         (if topic = ''channel message'' then map (\<lambda>ch. (ch, args)) (bound b) else [])\<rparr>"
| "bus_step b (Channel raw) =
     b\<lparr>bound := bound b @ [raw],
       delivered := delivered b @
         map (\<lambda>m. (raw, snd m))
           (filter (\<lambda>m. fst m = ''channel message'') (pendingQueue b))\<rparr>"
| "bus_step b a = b"

definition bus_run :: "action list \<Rightarrow> bus" where
  "bus_run l = foldl bus_step \<lparr>pendingQueue = [], bound = [], delivered = []\<rparr> l"


section \<open>Basic facts\<close>

lemma codecs_loop_drop:
  "i \<le> length cs \<Longrightarrow> codecs_loop cs i (length cs) x = foldl (\<lambda>a f. f a) x (drop i cs)"
proof (induction cs i "length cs" x rule: codecs_loop.induct)
  case (1 cs i sdp)
  show ?case
  proof (cases "i < length cs")
    case True
    then have "drop i cs = (cs ! i) # drop (Suc i) cs"
      by (simp add: Cons_nth_drop_Suc)
    with True "1.hyps" show ?thesis
      by (subst codecs_loop.simps) simp
  next
    case False
    with "1.prems" show ?thesis
      by (subst codecs_loop.simps) simp
  qed
qed

lemma codecs_loop_run: "codecs_loop cs 0 (length cs) x = run_spec cs x"
  by (simp add: codecs_loop_drop run_spec_def)

lemma codec_all: "codecs (foldl (\<lambda>q f. codec f q) p fs) = codecs p @ fs"
  by (induction fs arbitrary: p) (simp_all add: codec_def)

lemma codec_all_connection: "connection (foldl (\<lambda>q f. codec f q) p fs) = connection p"
  by (induction fs arbitrary: p) (simp_all add: codec_def)

lemma map_of_put_field: "map_of (put_field k v fs) k = Some v"
  by (induction fs) auto

lemma local_fn_obj:
  assumes "connection p = Some c" and "get_prop (JObj fs) ''sdp'' = Inr sdp"
  shows "local_fn (JObj fs) p =
     Inr (JObj (put_field ''sdp'' (run_spec (codecs p) sdp) fs),
          p\<lparr>log := log p @
             [SetLocalDescription
                (NewSession (JObj (put_field ''sdp'' (run_spec (codecs p) sdp) fs)))]\<rparr>)"
  using assms by (simp add: local_fn_def codecs_loop_run Let_def)

lemma session_success_fun:
  assumes "connection p = Some c" and "get_prop (JObj fs) ''sdp'' = Inr sdp"
  shows "session_success (JFun f) type (JObj fs) p =
     Inr (p\<lparr>log := log p @
        [SetLocalDescription (NewSession (JObj (put_field ''sdp'' (run_spec (codecs p) sdp) fs))),
         Call f [JObj (put_field ''sdp'' (run_spec (codecs p) sdp) fs)],
         Queue type [JObj (put_field ''sdp'' (run_spec (codecs p) sdp) fs)]]\<rparr>)"
  by (simp add: session_success_def local_fn_obj [OF assms] queue_def)

lemma session_success_nofn:
  assumes "connection p = Some c" and "get_prop (JObj fs) ''sdp'' = Inr sdp"
    and "\<not> truthy fn"
  shows "session_success fn type (JObj fs) p =
     Inr (p\<lparr>log := log p @
        [SetLocalDescription (NewSession (JObj (put_field ''sdp'' (run_spec (codecs p) sdp) fs))),
         Queue type [JObj (put_field ''sdp'' (run_spec (codecs p) sdp) fs)]]\<rparr>)"
  using assms(3) by (simp add: session_success_def local_fn_obj [OF assms(1,2)] queue_def)

lemma offer_eq:
  assumes "connection p = Some c"
  shows "offer fn opts p =
     Inr (p\<lparr>connection := Some (c\<lparr>channels := Suc (channels c)\<rparr>),
           channel := Some (Chan (JObj [(''label'', JStr ''master''),
                                        (''id'', JNum (int (channels c)))])),
           log := log p @
             [CreateDataChannel ''master'',
              Channel (JObj [(''label'', JStr ''master''), (''id'', JNum (int (channels c)))]),
              Emit ''before offer'' [],
              CreateOffer fn ''offer'' opts]\<rparr>)"
  using assms
  by (simp add: offer_def createDataChannel_def lib_channel_def session_def emit_def Let_def)

lemma answer_eq:
  assumes "connection p = Some c"
  shows "answer fn opts p =
     Inr (p\<lparr>connection := Some (c\<lparr>ondatachannel := True\<rparr>),
           log := log p @ [Emit ''before answer'' [], CreateAnswer fn ''answer'' opts]\<rparr>)"
  using assms by (simp add: answer_def session_def emit_def Let_def)

lemma get_prop_object: "is_object v \<Longrightarrow> get_prop v k = Inr (field v k)"
  by (cases v) (simp_all add: field_def)

lemma get_prop_truthy: "truthy v \<Longrightarrow> get_prop v k = Inr (field v k)"
  by (cases v) (simp_all add: field_def)

lemma fire_object_ready:
  assumes "connection p = Some c" and "onicecandidate c" and "ongatheringchange c"
    and "is_object (event_of n)"
  shows "\<exists>q. fire n p = Inr q \<and> connection q = Some c \<and>
             ready_count (log q) = ready_count (log p) + (if completes n then 1 else 0)"
proof (cases n)
  case (IceCandidate ev)
  with assms show ?thesis
    by (simp add: onicecandidate_fn_def get_prop_object emit_def queue_def ready_count_def)
next
  case (GatheringChange ev)
  with assms show ?thesis
    by (simp add: ongatheringchange_fn_def get_prop_object get_prop_truthy queue_def
        ready_count_def)
next
  case (DataChannel ev)
  with assms show ?thesis
    by (simp add: ondatachannel_fn_def get_prop_object lib_channel_def ready_count_def)
next
  case (RemoteStream ev)
  with assms show ?thesis
    by (simp add: onaddstream_fn_def get_prop_object emit_def ready_count_def)
qed

lemma negotiate_step:
  assumes "connection p = Some c"
  shows "\<exists>q c'. negotiate n p = Inr q \<and> connection q = Some c' \<and>
           requests (log q) = Suc (requests (log p))"
proof (cases n)
  case (Offer fn opts)
  then show ?thesis by (simp add: offer_eq [OF assms] requests_def)
next
  case (Answer fn opts)
  then show ?thesis by (simp add: answer_eq [OF assms] requests_def)
qed

lemma session_success_binds_nothing:
  assumes "session_success fn type d p = Inr q"
  shows "channel q = channel p \<and> connection q = connection p \<and>
         bindings (log q) = bindings (log p)"
  using assms
  by (cases fn)
    (auto simp: session_success_def local_fn_def queue_def bindings_def Let_def
      split: sum.splits option.splits if_splits)

lemma fire_binds_nothing:
  assumes "connection p = Some c" and "\<not> ondatachannel c" and "fire n p = Inr q"
  shows "channel q = channel p \<and> connection q = connection p \<and>
         bindings (log q) = bindings (log p)"
  using assms
  by (cases n)
    (auto simp: onicecandidate_fn_def ongatheringchange_fn_def onaddstream_fn_def
      emit_def queue_def bindings_def split: sum.splits if_splits)

lemma deliver_binds_nothing:
  assumes "connection p = Some c" and "\<not> ondatachannel c" and "deliver cb p = Inr q"
  shows "channel q = channel p \<and> connection q = connection p \<and>
         bindings (log q) = bindings (log p)"
proof (cases cb)
  case (Notification n)
  with assms fire_binds_nothing [of p c n q] show ?thesis by simp
next
  case (Success fn type d)
  with assms session_success_binds_nothing [of fn type d p q] show ?thesis by simp
next
  case (Failure e)
  with assms show ?thesis by (auto simp: session_failure_def emit_def bindings_def)
qed

lemma deliver_all_binds_nothing:
  assumes "connection p = Some c" and "\<not> ondatachannel c" and "deliver_all cbs p = Inr q"
  shows "channel q = channel p \<and> bindings (log q) = bindings (log p)"
  using assms(1,3)
proof (induction cbs arbitrary: p)
  case Nil
  then show ?case by simp
next
  case (Cons cb cbs)
  from Cons.prems(2) obtain p1 where p1: "deliver cb p = Inr p1" "deliver_all cbs p1 = Inr q"
    by (auto split: sum.splits)
  from deliver_binds_nothing [OF Cons.prems(1) assms(2) p1(1)]
  have keep: "channel p1 = channel p" "connection p1 = connection p"
    "bindings (log p1) = bindings (log p)"
    by simp_all
  from keep(2) Cons.prems(1) have "connection p1 = Some c" by simp
  from Cons.IH [OF this p1(2)] keep show ?case by simp
qed

lemma negotiate_binding_step:
  assumes "connection p = Some c"
  shows "\<exists>q c'. negotiate n p = Inr q \<and> connection q = Some c' \<and>
           bindings (log q) = bindings (log p) + (if is_offer n then 1 else 0)"
proof (cases n)
  case (Offer fn opts)
  then show ?thesis by (simp add: offer_eq [OF assms] bindings_def)
next
  case (Answer fn opts)
  then show ?thesis by (simp add: answer_eq [OF assms] bindings_def)
qed

lemma negotiate_all_bindings:
  assumes "connection p = Some c"
  shows "map_sum id (\<lambda>q. bindings (log q)) (negotiate_all ns p) =
           Inr (bindings (log p) + length (filter is_offer ns))"
  using assms
proof (induction ns arbitrary: p c)
  case Nil
  then show ?case by simp
next
  case (Cons n ns)
  from negotiate_binding_step [OF Cons.prems]
  obtain q c' where q: "negotiate n p = Inr q" "connection q = Some c'"
    "bindings (log q) = bindings (log p) + (if is_offer n then 1 else 0)"
    by blast
  from Cons.IH [OF q(2)] q(1,3) show ?case by (simp add: and_then_def)
qed

lemma bus_run_snoc: "bus_run (l @ [a]) = bus_step (bus_run l) a"
  by (simp add: bus_run_def)

lemma bus_run_append: "bus_run (l @ r) = foldl bus_step (bus_run l) r"
  by (simp add: bus_run_def)

lemma bus_step_mono:
  "set (pendingQueue b) \<subseteq> set (pendingQueue (bus_step b a)) \<and>
   set (delivered b) \<subseteq> set (delivered (bus_step b a)) \<and>
   set (bound b) \<subseteq> set (bound (bus_step b a))"
  by (cases a) auto

lemma bus_steps_mono:
  "set (pendingQueue b) \<subseteq> set (pendingQueue (foldl bus_step b r)) \<and>
   set (delivered b) \<subseteq> set (delivered (foldl bus_step b r)) \<and>
   set (bound b) \<subseteq> set (bound (foldl bus_step b r))"
proof (induction r arbitrary: b)
  case Nil
  then show ?case by simp
next
  case (Cons a r)
  from bus_step_mono [of b a] Cons.IH [of "bus_step b a"] show ?case
    by (simp only: foldl_Cons) blast
qed


section \<open>Gathering completion\<close>

text \<open>
  C1 (as amended). The session keeps no record of having signalled completion. On a
  session whose callbacks \<^verbatim>\<open>create\<close> has installed, every completion signal (a
  candidate-discovery callback with a falsy candidate, or a gathering-state change whose
  target reports \<^verbatim>\<open>complete\<close>) queues one \<^verbatim>\<open>ready\<close> event: after any interleaving of
  notifications, the number of \<^verbatim>\<open>ready\<close> events queued has grown by the number of
  completion signals among them.
\<close>

theorem ready_queued_once_per_completion_signal:
  assumes "connection p = Some c" and "onicecandidate c" and "ongatheringchange c"
    and "\<forall>n \<in> set ns. is_object (event_of n)"
  shows "map_sum id (\<lambda>q. ready_count (log q)) (fire_all ns p) =
           Inr (ready_count (log p) + length (filter completes ns))"
  using assms(1,4)
proof (induction ns arbitrary: p)
  case Nil
  then show ?case by simp
next
  case (Cons n ns)
  from Cons.prems have obj: "is_object (event_of n)" by simp
  from fire_object_ready [OF Cons.prems(1) assms(2,3) obj]
  obtain q where q: "fire n p = Inr q" "connection q = Some c"
    "ready_count (log q) = ready_count (log p) + (if completes n then 1 else 0)"
    by blast
  from Cons.prems have "\<forall>n \<in> set ns. is_object (event_of n)" by simp
  from Cons.IH [OF q(2) this] q(1,3) show ?case by simp
qed

theorem ready_queued_once_per_completion_signal_witness:
  "connection (create Peer) =
     Some \<lparr>onaddstream = True, onicecandidate = True, ongatheringchange = True,
           ondatachannel = False, channels = 0\<rparr> \<and>
   list_all (\<lambda>n. is_object (event_of n))
     [IceCandidate (JObj [(''candidate'', JObj [(''candidate'', JStr ''candidate:1 1 udp'')])]),
      GatheringChange (JObj [(''currentTarget'', JObj [(''iceGatheringState'', JStr ''gathering'')])]),
      IceCandidate (JObj [(''candidate'', JNull)]),
      GatheringChange (JObj [(''currentTarget'', JObj [(''iceGatheringState'', JStr ''complete'')])]),
      IceCandidate (JObj [])] \<and>
   ready_count (log (create Peer)) = 0 \<and>
   map_sum id (\<lambda>q. ready_count (log q))
     (fire_all
        [IceCandidate (JObj [(''candidate'', JObj [(''candidate'', JStr ''candidate:1 1 udp'')])]),
         GatheringChange (JObj [(''currentTarget'', JObj [(''iceGatheringState'', JStr ''gathering'')])]),
         IceCandidate (JObj [(''candidate'', JNull)]),
         GatheringChange (JObj [(''currentTarget'', JObj [(''iceGatheringState'', JStr ''complete'')])]),
         IceCandidate (JObj [])]
        (create Peer)) = Inr 3"
  using ready_queued_once_per_completion_signal
    [of "create Peer"
        "\<lparr>onaddstream = True, onicecandidate = True, ongatheringchange = True,
          ondatachannel = False, channels = 0\<rparr>"
        "[IceCandidate (JObj [(''candidate'', JObj [(''candidate'', JStr ''candidate:1 1 udp'')])]),
          GatheringChange (JObj [(''currentTarget'', JObj [(''iceGatheringState'', JStr ''gathering'')])]),
          IceCandidate (JObj [(''candidate'', JNull)]),
          GatheringChange (JObj [(''currentTarget'', JObj [(''iceGatheringState'', JStr ''complete'')])]),
          IceCandidate (JObj [])]"]
  by (simp add: create_def Peer_def emit_def ready_count_def field_def)

text \<open>
  A null candidate followed by a state change to \<^verbatim>\<open>complete\<close>, on a freshly created
  session: \<^verbatim>\<open>ready\<close> is queued twice.
\<close>

theorem ready_queued_twice_counterexample:
  "fire_all
     [IceCandidate (JObj [(''candidate'', JNull)]),
      GatheringChange
        (JObj [(''currentTarget'', JObj [(''iceGatheringState'', JStr ''complete'')])])]
     (create Peer) =
   Inr \<lparr>connection =
          Some \<lparr>onaddstream = True, onicecandidate = True, ongatheringchange = True,
                ondatachannel = False, channels = 0\<rparr>,
        codecs = [], channel = None,
        log = [NewPeerConnection, Emit ''create'' [], Queue ''ready'' [], Queue ''ready'' []]\<rparr>"
  by (simp add: create_def Peer_def emit_def queue_def onicecandidate_fn_def
      ongatheringchange_fn_def)


section \<open>The description pipeline\<close>

text \<open>
  C2. Registering stages with \<^verbatim>\<open>codec\<close> appends them, in order, to the stages already
  there. The loop of \<^verbatim>\<open>local\<close> over the registered stages computes the left fold of the
  stages over the description text, each stage's output being the next one's input,
  which is \<^verbatim>\<open>run\<close> as the specification words it. \<^verbatim>\<open>local\<close> stores that text in the
  description and commits the description, and the success callback of an offer and that
  of an answer both do so.
\<close>

theorem pipeline_left_fold_in_registration_order:
  assumes "connection p = Some c" and "get_prop (JObj fs) ''sdp'' = Inr text"
  shows "(let q = foldl (\<lambda>q stage. codec stage q) p stages;
              out = foldl (\<lambda>t stage. stage t) text (codecs p @ stages);
              d = JObj (put_field ''sdp'' out fs)
          in codecs q = codecs p @ stages \<and>
             codecs_loop (codecs q) 0 (length (codecs q)) text = out \<and>
             run_spec (codecs q) text = out \<and>
             local_fn (JObj fs) q =
               Inr (d, q\<lparr>log := log q @ [SetLocalDescription (NewSession d)]\<rparr>) \<and>
             get_prop d ''sdp'' = Inr out \<and>
             session_success (JFun f) ''offer'' (JObj fs) q =
               Inr (q\<lparr>log := log q @
                 [SetLocalDescription (NewSession d), Call f [d], Queue ''offer'' [d]]\<rparr>) \<and>
             session_success (JFun f) ''answer'' (JObj fs) q =
               Inr (q\<lparr>log := log q @
                 [SetLocalDescription (NewSession d), Call f [d], Queue ''answer'' [d]]\<rparr>))"
proof -
  let ?q = "foldl (\<lambda>q stage. codec stage q) p stages"
  have cq: "codecs ?q = codecs p @ stages" by (rule codec_all)
  have conn: "connection ?q = Some c" using assms(1) by (simp add: codec_all_connection)
  have run: "run_spec (codecs ?q) text = foldl (\<lambda>t stage. stage t) text (codecs p @ stages)"
    by (simp add: cq run_spec_def)
  have loop: "codecs_loop (codecs ?q) 0 (length (codecs ?q)) text = run_spec (codecs ?q) text"
    by (rule codecs_loop_run)
  show ?thesis
    unfolding Let_def
    using cq run loop local_fn_obj [OF conn assms(2)]
      session_success_fun [OF conn assms(2), of f "''offer''"]
      session_success_fun [OF conn assms(2), of f "''answer''"]
    by (simp add: map_of_put_field)
qed

theorem pipeline_left_fold_in_registration_order_witness:
  "connection (create Peer) =
     Some \<lparr>onaddstream = True, onicecandidate = True, ongatheringchange = True,
           ondatachannel = False, channels = 0\<rparr> \<and>
   get_prop (JObj [(''type'', JStr ''offer''), (''sdp'', JStr ''m=audio'')]) ''sdp'' =
     Inr (JStr ''m=audio'') \<and>
   map_sum id fst
     (local_fn (JObj [(''type'', JStr ''offer''), (''sdp'', JStr ''m=audio'')])
        (codec (\<lambda>v. case v of JStr s \<Rightarrow> JStr (s @ '';opus'') | _ \<Rightarrow> v)
           (codec (\<lambda>v. case v of JStr s \<Rightarrow> JStr (s @ '';cap'') | _ \<Rightarrow> v)
              (create Peer)))) =
     Inr (JObj [(''type'', JStr ''offer''), (''sdp'', JStr ''m=audio;cap;opus'')])"
  using pipeline_left_fold_in_registration_order
    [of "create Peer"
        "\<lparr>onaddstream = True, onicecandidate = True, ongatheringchange = True,
          ondatachannel = False, channels = 0\<rparr>"
        "[(''type'', JStr ''offer''), (''sdp'', JStr ''m=audio'')]"
        "JStr ''m=audio''"
        "[\<lambda>v. case v of JStr s \<Rightarrow> JStr (s @ '';cap'') | _ \<Rightarrow> v,
          \<lambda>v. case v of JStr s \<Rightarrow> JStr (s @ '';opus'') | _ \<Rightarrow> v]"
        0]
  by (simp add: create_def Peer_def emit_def codec_def Let_def)


section \<open>Role of the session\<close>

text \<open>
  C3 (as amended). \<^verbatim>\<open>offer\<close> and \<^verbatim>\<open>answer\<close> check no role, and the session records
  none. On a session with a connection, any sequence of \<^verbatim>\<open>offer\<close> and \<^verbatim>\<open>answer\<close>
  calls, in any order and with repetitions, returns normally, and each call sends one
  more \<^verbatim>\<open>createOffer\<close> or \<^verbatim>\<open>createAnswer\<close> request to the transport primitive.
\<close>

theorem offer_answer_unguarded:
  assumes "connection p = Some c"
  shows "map_sum id (\<lambda>q. requests (log q)) (negotiate_all ns p) =
           Inr (requests (log p) + length ns)"
  using assms
proof (induction ns arbitrary: p c)
  case Nil
  then show ?case by simp
next
  case (Cons n ns)
  from negotiate_step [OF Cons.prems]
  obtain q c' where q: "negotiate n p = Inr q" "connection q = Some c'"
    "requests (log q) = Suc (requests (log p))"
    by blast
  from Cons.IH [OF q(2)] q(1,3) show ?case by (simp add: and_then_def)
qed

theorem offer_answer_unguarded_witness:
  "connection (create Peer) =
     Some \<lparr>onaddstream = True, onicecandidate = True, ongatheringchange = True,
           ondatachannel = False, channels = 0\<rparr> \<and>
   requests (log (create Peer)) = 0 \<and>
   map_sum id (\<lambda>q. requests (log q))
     (negotiate_all
        [Answer JUndefined JUndefined, Offer (JFun 0) JUndefined, Offer (JFun 0) JUndefined]
        (create Peer)) = Inr 3"
  using offer_answer_unguarded
    [of "create Peer"
        "\<lparr>onaddstream = True, onicecandidate = True, ongatheringchange = True,
          ondatachannel = False, channels = 0\<rparr>"
        "[Answer JUndefined JUndefined, Offer (JFun 0) JUndefined, Offer (JFun 0) JUndefined]"]
  by (simp add: create_def Peer_def emit_def requests_def)

text \<open>
  \<^verbatim>\<open>offer()\<close> then \<^verbatim>\<open>answer()\<close> on a freshly created session: the second call returns
  normally, installs the remote-channel callback and requests an answer.
\<close>

theorem offer_then_answer_counterexample:
  "negotiate_all [Offer JUndefined JUndefined, Answer JUndefined JUndefined] (create Peer) =
     Inr \<lparr>connection =
            Some \<lparr>onaddstream = True, onicecandidate = True, ongatheringchange = True,
                  ondatachannel = True, channels = 1\<rparr>,
          codecs = [],
          channel = Some (Chan (JObj [(''label'', JStr ''master''), (''id'', JNum 0)])),
          log =
            [NewPeerConnection, Emit ''create'' [],
             CreateDataChannel ''master'',
             Channel (JObj [(''label'', JStr ''master''), (''id'', JNum 0)]),
             Emit ''before offer'' [],
             CreateOffer JUndefined ''offer'' JUndefined,
             Emit ''before answer'' [],
             CreateAnswer JUndefined ''answer'' JUndefined]\<rparr>"
  by (simp add: and_then_def create_def Peer_def emit_def offer_def answer_def session_def
      createDataChannel_def lib_channel_def Let_def)


section \<open>The success and failure callbacks\<close>

text \<open>
  C4. When the transport primitive hands a description to the success callback of
  \<^verbatim>\<open>session\<close>, the callback first runs the description's \<^verbatim>\<open>sdp\<close> through every
  registered stage in order, then commits the transformed description with
  \<^verbatim>\<open>setLocalDescription\<close>, then calls the caller's completion function (when one was
  given) with the transformed description, and last queues the \<^verbatim>\<open>offer\<close> or \<^verbatim>\<open>answer\<close>
  event carrying it. The one description committed is the transformed one.
\<close>

theorem description_transformed_committed_then_surfaced:
  assumes "connection p = Some c" and "get_prop (JObj fs) ''sdp'' = Inr sdp"
  shows "(let d = JObj (put_field ''sdp'' (run_spec (codecs p) sdp) fs) in
          session_success (JFun f) type (JObj fs) p =
            Inr (p\<lparr>log := log p @
              [SetLocalDescription (NewSession d), Call f [d], Queue type [d]]\<rparr>) \<and>
          (\<not> truthy fn \<longrightarrow>
             session_success fn type (JObj fs) p =
               Inr (p\<lparr>log := log p @ [SetLocalDescription (NewSession d), Queue type [d]]\<rparr>)) \<and>
          get_prop d ''sdp'' = Inr (run_spec (codecs p) sdp))"
  unfolding Let_def
  using session_success_fun [OF assms] session_success_nofn [OF assms]
  by (simp add: map_of_put_field)

theorem description_transformed_committed_then_surfaced_witness:
  "connection (codec (\<lambda>v. case v of JStr s \<Rightarrow> JStr (s @ '';cap'') | _ \<Rightarrow> v) (create Peer)) =
     Some \<lparr>onaddstream = True, onicecandidate = True, ongatheringchange = True,
           ondatachannel = False, channels = 0\<rparr> \<and>
   get_prop (JObj [(''type'', JStr ''answer''), (''sdp'', JStr ''m=audio'')]) ''sdp'' =
     Inr (JStr ''m=audio'') \<and>
   \<not> truthy JUndefined \<and>
   map_sum id log
     (session_success (JFun 7) ''answer''
        (JObj [(''type'', JStr ''answer''), (''sdp'', JStr ''m=audio'')])
        (codec (\<lambda>v. case v of JStr s \<Rightarrow> JStr (s @ '';cap'') | _ \<Rightarrow> v) (create Peer))) =
     Inr [NewPeerConnection, Emit ''create'' [],
          SetLocalDescription
            (NewSession (JObj [(''type'', JStr ''answer''), (''sdp'', JStr ''m=audio;cap'')])),
          Call 7 [JObj [(''type'', JStr ''answer''), (''sdp'', JStr ''m=audio;cap'')]],
          Queue ''answer'' [JObj [(''type'', JStr ''answer''), (''sdp'', JStr ''m=audio;cap'')]]] \<and>
   map_sum id log
     (session_success JUndefined ''answer''
        (JObj [(''type'', JStr ''answer''), (''sdp'', JStr ''m=audio'')])
        (codec (\<lambda>v. case v of JStr s \<Rightarrow> JStr (s @ '';cap'') | _ \<Rightarrow> v) (create Peer))) =
     Inr [NewPeerConnection, Emit ''create'' [],
          SetLocalDescription
            (NewSession (JObj [(''type'', JStr ''answer''), (''sdp'', JStr ''m=audio;cap'')])),
          Queue ''answer'' [JObj [(''type'', JStr ''answer''), (''sdp'', JStr ''m=audio;cap'')]]]"
  using description_transformed_committed_then_surfaced
    [of "codec (\<lambda>v. case v of JStr s \<Rightarrow> JStr (s @ '';cap'') | _ \<Rightarrow> v) (create Peer)"
        "\<lparr>onaddstream = True, onicecandidate = True, ongatheringchange = True,
          ondatachannel = False, channels = 0\<rparr>"
        "[(''type'', JStr ''answer''), (''sdp'', JStr ''m=audio'')]"
        "JStr ''m=audio''" 7 "''answer''" JUndefined]
  by (simp add: create_def Peer_def emit_def codec_def Let_def run_spec_def)

text \<open>
  C5. When the transport primitive reports a failed creation to the error callback of
  \<^verbatim>\<open>session\<close>, the callback emits one \<^verbatim>\<open>error\<close> event carrying the cause and returns
  normally. Nothing else happens: no description is committed, no event is queued, and
  the connection, the stages and the channel are as before. So a further \<^verbatim>\<open>offer\<close> or
  \<^verbatim>\<open>answer\<close> on the session proceeds as it would have without the failure.
\<close>

theorem failure_emits_error_and_session_stays_usable:
  "session_failure e p = Inr (p\<lparr>log := log p @ [Emit ''error'' [e]]\<rparr>) \<and>
   (connection p = Some c \<longrightarrow>
      offer fn opts (p\<lparr>log := log p @ [Emit ''error'' [e]]\<rparr>) =
        Inr (p\<lparr>connection := Some (c\<lparr>channels := Suc (channels c)\<rparr>),
              channel := Some (Chan (JObj [(''label'', JStr ''master''),
                                           (''id'', JNum (int (channels c)))])),
              log := log p @
                [Emit ''error'' [e],
                 CreateDataChannel ''master'',
                 Channel (JObj [(''label'', JStr ''master''), (''id'', JNum (int (channels c)))]),
                 Emit ''before offer'' [],
                 CreateOffer fn ''offer'' opts]\<rparr>) \<and>
      answer fn opts (p\<lparr>log := log p @ [Emit ''error'' [e]]\<rparr>) =
        Inr (p\<lparr>connection := Some (c\<lparr>ondatachannel := True\<rparr>),
              log := log p @
                [Emit ''error'' [e], Emit ''before answer'' [],
                 CreateAnswer fn ''answer'' opts]\<rparr>))"
proof (intro conjI impI)
  show "session_failure e p = Inr (p\<lparr>log := log p @ [Emit ''error'' [e]]\<rparr>)"
    by (simp add: session_failure_def emit_def)
next
  assume c: "connection p = Some c"
  then have c': "connection (p\<lparr>log := log p @ [Emit ''error'' [e]]\<rparr>) = Some c" by simp
  show "offer fn opts (p\<lparr>log := log p @ [Emit ''error'' [e]]\<rparr>) =
        Inr (p\<lparr>connection := Some (c\<lparr>channels := Suc (channels c)\<rparr>),
              channel := Some (Chan (JObj [(''label'', JStr ''master''),
                                           (''id'', JNum (int (channels c)))])),
              log := log p @
                [Emit ''error'' [e],
                 CreateDataChannel ''master'',
                 Channel (JObj [(''label'', JStr ''master''), (''id'', JNum (int (channels c)))]),
                 Emit ''before offer'' [],
                 CreateOffer fn ''offer'' opts]\<rparr>)"
    by (simp add: offer_eq [OF c'])
  show "answer fn opts (p\<lparr>log := log p @ [Emit ''error'' [e]]\<rparr>) =
        Inr (p\<lparr>connection := Some (c\<lparr>ondatachannel := True\<rparr>),
              log := log p @
                [Emit ''error'' [e], Emit ''before answer'' [],
                 CreateAnswer fn ''answer'' opts]\<rparr>)"
    by (simp add: answer_eq [OF c'])
qed

theorem failure_emits_error_and_session_stays_usable_witness:
  "connection (create Peer) =
     Some \<lparr>onaddstream = True, onicecandidate = True, ongatheringchange = True,
           ondatachannel = False, channels = 0\<rparr> \<and>
   map_sum id log (session_failure (JStr ''InvalidStateError'') (create Peer)) =
     Inr [NewPeerConnection, Emit ''create'' [], Emit ''error'' [JStr ''InvalidStateError'']] \<and>
   map_sum id log
     (and_then (session_failure (JStr ''InvalidStateError'') (create Peer))
        (answer (JFun 1) JUndefined)) =
     Inr [NewPeerConnection, Emit ''create'' [], Emit ''error'' [JStr ''InvalidStateError''],
          Emit ''before answer'' [], CreateAnswer (JFun 1) ''answer'' JUndefined]"
  using failure_emits_error_and_session_stays_usable
    [of "JStr ''InvalidStateError''" "create Peer"
        "\<lparr>onaddstream = True, onicecandidate = True, ongatheringchange = True,
          ondatachannel = False, channels = 0\<rparr>"
        "JFun 1" JUndefined]
  by (simp add: create_def Peer_def emit_def and_then_def)


section \<open>Binding the data channel\<close>

text \<open>
  C6 (as amended). On a session with a connection, every call of \<^verbatim>\<open>offer\<close> asks the
  transport primitive for the \<^verbatim>\<open>master\<close> data channel and binds it first, and only
  then emits \<^verbatim>\<open>before offer\<close> and calls \<^verbatim>\<open>createOffer\<close>: the call creates and binds
  one channel, synchronously, ahead of its own offer request. On an initiator (a session
  that has not installed the remote-channel callback) nothing the transport primitive
  calls back afterwards, be it a notification or the success or error callback of a
  request, binds a channel. \<^verbatim>\<open>offer\<close> keeps no record of an earlier binding, though: in
  any sequence of \<^verbatim>\<open>offer\<close> and \<^verbatim>\<open>answer\<close> calls each \<^verbatim>\<open>offer\<close> binds a further
  channel, so the session has as many bindings as \<^verbatim>\<open>offer\<close> was called, one only when
  it was called once.
\<close>

theorem offer_creates_channel_before_createOffer:
  assumes "connection p = Some c"
  shows "(let raw = JObj [(''label'', JStr ''master''), (''id'', JNum (int (channels c)))];
              q = p\<lparr>connection := Some (c\<lparr>channels := Suc (channels c)\<rparr>),
                     channel := Some (Chan raw),
                     log := log p @
                       [CreateDataChannel ''master'', Channel raw,
                        Emit ''before offer'' [], CreateOffer fn ''offer'' opts]\<rparr>
          in offer fn opts p = Inr q \<and>
             bindings (log q) = Suc (bindings (log p)) \<and>
             (\<not> ondatachannel c \<longrightarrow> deliver_all cbs q = Inr q' \<longrightarrow>
                channel q' = Some (Chan raw) \<and>
                bindings (log q') = Suc (bindings (log p))) \<and>
             map_sum id (\<lambda>q. bindings (log q)) (negotiate_all ns p) =
               Inr (bindings (log p) + length (filter is_offer ns)))"
proof -
  let ?raw = "JObj [(''label'', JStr ''master''), (''id'', JNum (int (channels c)))]"
  let ?q = "p\<lparr>connection := Some (c\<lparr>channels := Suc (channels c)\<rparr>),
               channel := Some (Chan ?raw),
               log := log p @
                 [CreateDataChannel ''master'', Channel ?raw,
                  Emit ''before offer'' [], CreateOffer fn ''offer'' opts]\<rparr>"
  have eq: "offer fn opts p = Inr ?q" by (rule offer_eq [OF assms])
  have one: "bindings (log ?q) = Suc (bindings (log p))" by (simp add: bindings_def)
  have after: "channel q' = Some (Chan ?raw) \<and> bindings (log q') = Suc (bindings (log p))"
    if "\<not> ondatachannel c" and "deliver_all cbs ?q = Inr q'"
  proof -
    have "connection ?q = Some (c\<lparr>channels := Suc (channels c)\<rparr>)" by simp
    moreover have "\<not> ondatachannel (c\<lparr>channels := Suc (channels c)\<rparr>)" using that(1) by simp
    ultimately have "channel q' = channel ?q \<and> bindings (log q') = bindings (log ?q)"
      using that(2) by (rule deliver_all_binds_nothing)
    with one show ?thesis by simp
  qed
  have many: "map_sum id (\<lambda>q. bindings (log q)) (negotiate_all ns p) =
      Inr (bindings (log p) + length (filter is_offer ns))"
    by (rule negotiate_all_bindings [OF assms])
  from eq one after many show ?thesis unfolding Let_def by blast
qed

theorem offer_creates_channel_before_createOffer_witness:
  "connection (create Peer) =
     Some \<lparr>onaddstream = True, onicecandidate = True, ongatheringchange = True,
           ondatachannel = False, channels = 0\<rparr> \<and>
   offer (JFun 0) JUndefined (create Peer) =
     Inr \<lparr>connection =
            Some \<lparr>onaddstream = True, onicecandidate = True, ongatheringchange = True,
                  ondatachannel = False, channels = 1\<rparr>,
          codecs = [],
          channel = Some (Chan (JObj [(''label'', JStr ''master''), (''id'', JNum 0)])),
          log =
            [NewPeerConnection, Emit ''create'' [], CreateDataChannel ''master'',
             Channel (JObj [(''label'', JStr ''master''), (''id'', JNum 0)]),
             Emit ''before offer'' [], CreateOffer (JFun 0) ''offer'' JUndefined]\<rparr> \<and>
   deliver_all
     [Notification (DataChannel (JObj [(''channel'', JObj [(''label'', JStr ''other'')])])),
      Success (JFun 0) ''offer'' (JObj [(''type'', JStr ''offer''), (''sdp'', JStr ''v=0'')]),
      Notification (IceCandidate (JObj [(''candidate'', JNull)]))]
     \<lparr>connection =
        Some \<lparr>onaddstream = True, onicecandidate = True, ongatheringchange = True,
              ondatachannel = False, channels = 1\<rparr>,
      codecs = [],
      channel = Some (Chan (JObj [(''label'', JStr ''master''), (''id'', JNum 0)])),
      log =
        [NewPeerConnection, Emit ''create'' [], CreateDataChannel ''master'',
         Channel (JObj [(''label'', JStr ''master''), (''id'', JNum 0)]),
         Emit ''before offer'' [], CreateOffer (JFun 0) ''offer'' JUndefined]\<rparr> =
     Inr \<lparr>connection =
            Some \<lparr>onaddstream = True, onicecandidate = True, ongatheringchange = True,
                  ondatachannel = False, channels = 1\<rparr>,
          codecs = [],
          channel = Some (Chan (JObj [(''label'', JStr ''master''), (''id'', JNum 0)])),
          log =
            [NewPeerConnection, Emit ''create'' [], CreateDataChannel ''master'',
             Channel (JObj [(''label'', JStr ''master''), (''id'', JNum 0)]),
             Emit ''before offer'' [], CreateOffer (JFun 0) ''offer'' JUndefined,
             SetLocalDescription (NewSession (JObj [(''type'', JStr ''offer''), (''sdp'', JStr ''v=0'')])),
             Call 0 [JObj [(''type'', JStr ''offer''), (''sdp'', JStr ''v=0'')]],
             Queue ''offer'' [JObj [(''type'', JStr ''offer''), (''sdp'', JStr ''v=0'')]],
             Queue ''ready'' []]\<rparr> \<and>
   bindings
     [NewPeerConnection, Emit ''create'' [], CreateDataChannel ''master'',
      Channel (JObj [(''label'', JStr ''master''), (''id'', JNum 0)]),
      Emit ''before offer'' [], CreateOffer (JFun 0) ''offer'' JUndefined,
      SetLocalDescription (NewSession (JObj [(''type'', JStr ''offer''), (''sdp'', JStr ''v=0'')])),
      Call 0 [JObj [(''type'', JStr ''offer''), (''sdp'', JStr ''v=0'')]],
      Queue ''offer'' [JObj [(''type'', JStr ''offer''), (''sdp'', JStr ''v=0'')]],
      Queue ''ready'' []] = 1 \<and>
   map_sum id (\<lambda>q. bindings (log q))
     (negotiate_all
        [Offer (JFun 0) JUndefined, Answer JUndefined JUndefined, Offer (JFun 0) JUndefined]
        (create Peer)) = Inr 2"
  using offer_creates_channel_before_createOffer
    [of "create Peer"
        "\<lparr>onaddstream = True, onicecandidate = True, ongatheringchange = True,
          ondatachannel = False, channels = 0\<rparr>"
        "JFun 0" JUndefined
        "[Notification (DataChannel (JObj [(''channel'', JObj [(''label'', JStr ''other'')])])),
          Success (JFun 0) ''offer'' (JObj [(''type'', JStr ''offer''), (''sdp'', JStr ''v=0'')]),
          Notification (IceCandidate (JObj [(''candidate'', JNull)]))]"
        "\<lparr>connection =
            Some \<lparr>onaddstream = True, onicecandidate = True, ongatheringchange = True,
                  ondatachannel = False, channels = 1\<rparr>,
          codecs = [],
          channel = Some (Chan (JObj [(''label'', JStr ''master''), (''id'', JNum 0)])),
          log =
            [NewPeerConnection, Emit ''create'' [], CreateDataChannel ''master'',
             Channel (JObj [(''label'', JStr ''master''), (''id'', JNum 0)]),
             Emit ''before offer'' [], CreateOffer (JFun 0) ''offer'' JUndefined,
             SetLocalDescription (NewSession (JObj [(''type'', JStr ''offer''), (''sdp'', JStr ''v=0'')])),
             Call 0 [JObj [(''type'', JStr ''offer''), (''sdp'', JStr ''v=0'')]],
             Queue ''offer'' [JObj [(''type'', JStr ''offer''), (''sdp'', JStr ''v=0'')]],
             Queue ''ready'' []]\<rparr>"
        "[Offer (JFun 0) JUndefined, Answer JUndefined JUndefined, Offer (JFun 0) JUndefined]"]
  by (simp add: create_def Peer_def emit_def Let_def bindings_def session_success_def
      local_fn_def queue_def codecs_loop.simps onicecandidate_fn_def and_then_def offer_def
      answer_def session_def createDataChannel_def lib_channel_def)

text \<open>
  An initiator whose first offer request fails and who calls \<^verbatim>\<open>offer()\<close> again, as
  a retry: a second \<^verbatim>\<open>master\<close> channel is created and bound, after the first
  \<^verbatim>\<open>createOffer\<close>, and the session's channel is now the second one.
\<close>

theorem retried_offer_binds_again_counterexample:
  "and_then
     (and_then (offer JUndefined JUndefined (create Peer))
        (session_failure (JStr ''InvalidStateError'')))
     (offer JUndefined JUndefined) =
   Inr \<lparr>connection =
          Some \<lparr>onaddstream = True, onicecandidate = True, ongatheringchange = True,
                ondatachannel = False, channels = 2\<rparr>,
        codecs = [],
        channel = Some (Chan (JObj [(''label'', JStr ''master''), (''id'', JNum 1)])),
        log =
          [NewPeerConnection, Emit ''create'' [],
           CreateDataChannel ''master'',
           Channel (JObj [(''label'', JStr ''master''), (''id'', JNum 0)]),
           Emit ''before offer'' [],
           CreateOffer JUndefined ''offer'' JUndefined,
           Emit ''error'' [JStr ''InvalidStateError''],
           CreateDataChannel ''master'',
           Channel (JObj [(''label'', JStr ''master''), (''id'', JNum 1)]),
           Emit ''before offer'' [],
           CreateOffer JUndefined ''offer'' JUndefined]\<rparr>"
  by (simp add: and_then_def create_def Peer_def emit_def offer_def session_def
      session_failure_def createDataChannel_def lib_channel_def Let_def)

text \<open>
  C7 (as amended). The callback that \<^verbatim>\<open>answer\<close> installs for incoming channels keeps no
  record of an earlier binding. On a responder session every remote-channel notification
  binds the channel it carries: \<^verbatim>\<open>k\<close> notifications make \<^verbatim>\<open>k\<close> bindings, in order, and
  the session's \<^verbatim>\<open>channel\<close> is the binding made for the latest one.
\<close>

theorem every_notification_binds:
  assumes "connection p = Some c" and "ondatachannel c"
    and "\<forall>ev \<in> set evs. is_object ev"
  shows "fire_all (map DataChannel evs) p =
     Inr (p\<lparr>channel := (if evs = [] then channel p
                         else Some (Chan (field (last evs) ''channel''))),
           log := log p @ map (\<lambda>ev. Channel (field ev ''channel'')) evs\<rparr>)"
  using assms(1,3)
proof (induction evs arbitrary: p)
  case Nil
  then show ?case by simp
next
  case (Cons ev evs)
  let ?p1 = "p\<lparr>channel := Some (Chan (field ev ''channel'')),
               log := log p @ [Channel (field ev ''channel'')]\<rparr>"
  from Cons.prems have "is_object ev" by simp
  then have step: "fire (DataChannel ev) p = Inr ?p1"
    using Cons.prems(1) assms(2)
    by (simp add: ondatachannel_fn_def get_prop_object lib_channel_def)
  have c1: "connection ?p1 = Some c" using Cons.prems(1) by simp
  from Cons.prems have "\<forall>ev \<in> set evs. is_object ev" by simp
  from Cons.IH [OF c1 this] step show ?case by simp
qed

theorem every_notification_binds_witness:
  "answer JUndefined JUndefined (create Peer) =
     Inr \<lparr>connection =
            Some \<lparr>onaddstream = True, onicecandidate = True, ongatheringchange = True,
                  ondatachannel = True, channels = 0\<rparr>,
          codecs = [], channel = None,
          log = [NewPeerConnection, Emit ''create'' [], Emit ''before answer'' [],
                 CreateAnswer JUndefined ''answer'' JUndefined]\<rparr> \<and>
   list_all is_object
     [JObj [(''channel'', JObj [(''label'', JStr ''master''), (''id'', JNum 0)])],
      JObj [(''channel'', JObj [(''label'', JStr ''extra''), (''id'', JNum 1)])],
      JObj [(''channel'', JObj [(''label'', JStr ''master''), (''id'', JNum 0)])]] \<and>
   fire_all
     [DataChannel (JObj [(''channel'', JObj [(''label'', JStr ''master''), (''id'', JNum 0)])]),
      DataChannel (JObj [(''channel'', JObj [(''label'', JStr ''extra''), (''id'', JNum 1)])]),
      DataChannel (JObj [(''channel'', JObj [(''label'', JStr ''master''), (''id'', JNum 0)])])]
     \<lparr>connection =
        Some \<lparr>onaddstream = True, onicecandidate = True, ongatheringchange = True,
              ondatachannel = True, channels = 0\<rparr>,
      codecs = [], channel = None,
      log = [NewPeerConnection, Emit ''create'' [], Emit ''before answer'' [],
             CreateAnswer JUndefined ''answer'' JUndefined]\<rparr> =
     Inr \<lparr>connection =
            Some \<lparr>onaddstream = True, onicecandidate = True, ongatheringchange = True,
                  ondatachannel = True, channels = 0\<rparr>,
          codecs = [],
          channel = Some (Chan (JObj [(''label'', JStr ''master''), (''id'', JNum 0)])),
          log = [NewPeerConnection, Emit ''create'' [], Emit ''before answer'' [],
                 CreateAnswer JUndefined ''answer'' JUndefined,
                 Channel (JObj [(''label'', JStr ''master''), (''id'', JNum 0)]),
                 Channel (JObj [(''label'', JStr ''extra''), (''id'', JNum 1)]),
                 Channel (JObj [(''label'', JStr ''master''), (''id'', JNum 0)])]\<rparr>"
  using every_notification_binds
    [of "\<lparr>connection =
            Some \<lparr>onaddstream = True, onicecandidate = True, ongatheringchange = True,
                  ondatachannel = True, channels = 0\<rparr>,
          codecs = [], channel = None,
          log = [NewPeerConnection, Emit ''create'' [], Emit ''before answer'' [],
                 CreateAnswer JUndefined ''answer'' JUndefined]\<rparr>"
        "\<lparr>onaddstream = True, onicecandidate = True, ongatheringchange = True,
          ondatachannel = True, channels = 0\<rparr>"
        "[JObj [(''channel'', JObj [(''label'', JStr ''master''), (''id'', JNum 0)])],
          JObj [(''channel'', JObj [(''label'', JStr ''extra''), (''id'', JNum 1)])],
          JObj [(''channel'', JObj [(''label'', JStr ''master''), (''id'', JNum 0)])]]"]
  by (simp add: create_def Peer_def emit_def answer_def session_def Let_def field_def)

text \<open>
  A responder that is notified twice of the same incoming channel: the channel is bound
  twice.
\<close>

theorem channel_bound_twice_counterexample:
  "and_then (answer JUndefined JUndefined (create Peer))
     (fire_all
        [DataChannel (JObj [(''channel'', JObj [(''label'', JStr ''master''), (''id'', JNum 0)])]),
         DataChannel (JObj [(''channel'', JObj [(''label'', JStr ''master''), (''id'', JNum 0)])])]) =
   Inr \<lparr>connection =
          Some \<lparr>onaddstream = True, onicecandidate = True, ongatheringchange = True,
                ondatachannel = True, channels = 0\<rparr>,
        codecs = [],
        channel = Some (Chan (JObj [(''label'', JStr ''master''), (''id'', JNum 0)])),
        log = [NewPeerConnection, Emit ''create'' [], Emit ''before answer'' [],
               CreateAnswer JUndefined ''answer'' JUndefined,
               Channel (JObj [(''label'', JStr ''master''), (''id'', JNum 0)]),
               Channel (JObj [(''label'', JStr ''master''), (''id'', JNum 0)])]\<rparr>"
  by (simp add: and_then_def create_def Peer_def emit_def answer_def session_def Let_def
      ondatachannel_fn_def lib_channel_def)


section \<open>Relaying candidates\<close>

text \<open>
  C8. On a session whose callbacks \<^verbatim>\<open>create\<close> has installed, a candidate-discovery
  callback whose event carries a truthy candidate (any candidate object is one) emits one
  \<^verbatim>\<open>candidate\<close> event with that very candidate, followed by the event, and does nothing
  else: it is emitted, not queued. This happens each time the callback runs, so a
  candidate announced \<^verbatim>\<open>n\<close> times is emitted \<^verbatim>\<open>n\<close> times.
\<close>

theorem candidate_relayed_every_time:
  assumes "get_prop event ''candidate'' = Inr candidate" and "truthy candidate"
    and "connection p = Some c" and "onicecandidate c"
  shows "onicecandidate_fn event p =
           Inr (p\<lparr>log := log p @ [Emit ''candidate'' [candidate, event]]\<rparr>) \<and>
         fire_all (replicate n (IceCandidate event)) p =
           Inr (p\<lparr>log := log p @ replicate n (Emit ''candidate'' [candidate, event])\<rparr>)"
proof
  show "onicecandidate_fn event p =
      Inr (p\<lparr>log := log p @ [Emit ''candidate'' [candidate, event]]\<rparr>)"
    using assms(1,2) by (simp add: onicecandidate_fn_def emit_def)
next
  show "fire_all (replicate n (IceCandidate event)) p =
      Inr (p\<lparr>log := log p @ replicate n (Emit ''candidate'' [candidate, event])\<rparr>)"
    using assms(3)
  proof (induction n arbitrary: p)
    case 0
    then show ?case by simp
  next
    case (Suc n)
    have step: "fire (IceCandidate event) p =
        Inr (p\<lparr>log := log p @ [Emit ''candidate'' [candidate, event]]\<rparr>)"
      using assms(1,2,4) Suc.prems by (simp add: onicecandidate_fn_def emit_def)
    have "connection (p\<lparr>log := log p @ [Emit ''candidate'' [candidate, event]]\<rparr>) = Some c"
      using Suc.prems by simp
    from Suc.IH [OF this] step show ?case
      by (simp add: replicate_app_Cons_same)
  qed
qed

theorem candidate_relayed_every_time_witness:
  "get_prop
     (JObj [(''candidate'',
             JObj [(''candidate'', JStr ''candidate:1 1 udp''), (''sdpMLineIndex'', JNum 0)])])
     ''candidate'' =
     Inr (JObj [(''candidate'', JStr ''candidate:1 1 udp''), (''sdpMLineIndex'', JNum 0)]) \<and>
   truthy (JObj [(''candidate'', JStr ''candidate:1 1 udp''), (''sdpMLineIndex'', JNum 0)]) \<and>
   connection (create Peer) =
     Some \<lparr>onaddstream = True, onicecandidate = True, ongatheringchange = True,
           ondatachannel = False, channels = 0\<rparr> \<and>
   fire_all
     [IceCandidate
        (JObj [(''candidate'',
                JObj [(''candidate'', JStr ''candidate:1 1 udp''), (''sdpMLineIndex'', JNum 0)])]),
      IceCandidate
        (JObj [(''candidate'',
                JObj [(''candidate'', JStr ''candidate:1 1 udp''), (''sdpMLineIndex'', JNum 0)])])]
     (create Peer) =
     Inr ((create Peer)\<lparr>log :=
       [NewPeerConnection, Emit ''create'' [],
        Emit ''candidate''
          [JObj [(''candidate'', JStr ''candidate:1 1 udp''), (''sdpMLineIndex'', JNum 0)],
           JObj [(''candidate'',
                  JObj [(''candidate'', JStr ''candidate:1 1 udp''), (''sdpMLineIndex'', JNum 0)])]],
        Emit ''candidate''
          [JObj [(''candidate'', JStr ''candidate:1 1 udp''), (''sdpMLineIndex'', JNum 0)],
           JObj [(''candidate'',
                  JObj [(''candidate'', JStr ''candidate:1 1 udp''), (''sdpMLineIndex'', JNum 0)])]]]\<rparr>)"
  using candidate_relayed_every_time
    [of "JObj [(''candidate'',
                JObj [(''candidate'', JStr ''candidate:1 1 udp''), (''sdpMLineIndex'', JNum 0)])]"
        "JObj [(''candidate'', JStr ''candidate:1 1 udp''), (''sdpMLineIndex'', JNum 0)]"
        "create Peer"
        "\<lparr>onaddstream = True, onicecandidate = True, ongatheringchange = True,
          ondatachannel = False, channels = 0\<rparr>"
        "Suc (Suc 0)"]
  by (simp add: create_def Peer_def emit_def onicecandidate_fn_def)


section \<open>Sending messages\<close>

text \<open>
  C9. \<^verbatim>\<open>send\<close> queues one \<^verbatim>\<open>channel message\<close> event carrying the message and returns the
  session; it does so whether or not a channel or even a connection exists, and never
  raises. Under the queue contract of the specification: while no channel has been
  bound, the message is delivered to nobody and stays in the pending queue, through
  whatever happens later; and once a channel is bound, that channel has been handed the
  message.
\<close>

theorem send_queues_until_channel_exists:
  "send msg p = Inr (p\<lparr>log := log p @ [Queue ''channel message'' [msg]]\<rparr>) \<and>
   (bound (bus_run (log p)) = [] \<longrightarrow>
      delivered (bus_run (log p @ [Queue ''channel message'' [msg]])) =
      delivered (bus_run (log p))) \<and>
   (''channel message'', [msg]) \<in>
      set (pendingQueue (bus_run (log p @ [Queue ''channel message'' [msg]] @ later))) \<and>
   (raw, [msg]) \<in>
      set (delivered (bus_run
        (log p @ [Queue ''channel message'' [msg]] @ later @ [Channel raw] @ after)))"
proof (intro conjI impI)
  show "send msg p = Inr (p\<lparr>log := log p @ [Queue ''channel message'' [msg]]\<rparr>)"
    by (simp add: send_def queue_def)
next
  assume "bound (bus_run (log p)) = []"
  then show "delivered (bus_run (log p @ [Queue ''channel message'' [msg]])) =
      delivered (bus_run (log p))"
    by (simp add: bus_run_snoc)
next
  let ?b = "bus_run (log p @ [Queue ''channel message'' [msg]])"
  have in_b: "(''channel message'', [msg]) \<in> set (pendingQueue ?b)"
    by (simp add: bus_run_snoc)
  have "bus_run (log p @ [Queue ''channel message'' [msg]] @ later) = foldl bus_step ?b later"
    using bus_run_append [of "log p @ [Queue ''channel message'' [msg]]" later] by simp
  with in_b bus_steps_mono [of ?b later]
  show later: "(''channel message'', [msg]) \<in>
      set (pendingQueue (bus_run (log p @ [Queue ''channel message'' [msg]] @ later)))"
    by auto
  let ?l = "log p @ [Queue ''channel message'' [msg]] @ later"
  have "(raw, [msg]) \<in> set (delivered (bus_step (bus_run ?l) (Channel raw)))"
    using later by force
  then have "(raw, [msg]) \<in> set (delivered (bus_run (?l @ [Channel raw])))"
    by (simp only: bus_run_snoc)
  moreover have "bus_run ((?l @ [Channel raw]) @ after) =
      foldl bus_step (bus_run (?l @ [Channel raw])) after"
    by (rule bus_run_append)
  ultimately have "(raw, [msg]) \<in> set (delivered (bus_run ((?l @ [Channel raw]) @ after)))"
    using bus_steps_mono [of "bus_run (?l @ [Channel raw])" after] by auto
  then show "(raw, [msg]) \<in>
      set (delivered (bus_run
        (log p @ [Queue ''channel message'' [msg]] @ later @ [Channel raw] @ after)))"
    by simp
qed

theorem send_queues_until_channel_exists_witness:
  "bound (bus_run (log Peer)) = [] \<and>
   send (JStr ''hello'') Peer =
     Inr \<lparr>connection = None, codecs = [], channel = None,
          log = [Queue ''channel message'' [JStr ''hello'']]\<rparr> \<and>
   delivered (bus_run [Queue ''channel message'' [JStr ''hello'']]) = [] \<and>
   map_sum id log
     (and_then (send (JStr ''hello'') Peer) (offer JUndefined JUndefined \<circ> create)) =
     Inr [Queue ''channel message'' [JStr ''hello''], NewPeerConnection, Emit ''create'' [],
          CreateDataChannel ''master'',
          Channel (JObj [(''label'', JStr ''master''), (''id'', JNum 0)]),
          Emit ''before offer'' [], CreateOffer JUndefined ''offer'' JUndefined] \<and>
   (JObj [(''label'', JStr ''master''), (''id'', JNum 0)], [JStr ''hello'']) \<in>
     set (delivered (bus_run
       [Queue ''channel message'' [JStr ''hello''], NewPeerConnection, Emit ''create'' [],
        CreateDataChannel ''master'',
        Channel (JObj [(''label'', JStr ''master''), (''id'', JNum 0)]),
        Emit ''before offer'' [], CreateOffer JUndefined ''offer'' JUndefined]))"
  using send_queues_until_channel_exists
    [of "JStr ''hello''" Peer
        "[NewPeerConnection, Emit ''create'' [], CreateDataChannel ''master'']"
        "JObj [(''label'', JStr ''master''), (''id'', JNum 0)]"
        "[Emit ''before offer'' [], CreateOffer JUndefined ''offer'' JUndefined]"]
  by (simp add: Peer_def bus_run_def and_then_def create_def emit_def offer_def
      createDataChannel_def lib_channel_def session_def Let_def)


section \<open>Setting candidates\<close>

text \<open>
  C10. \<^verbatim>\<open>ice\<close> with a falsy candidate (\<^verbatim>\<open>null\<close>, \<^verbatim>\<open>undefined\<close>, or any other falsy
  value) is a no-op: nothing is added to the connection and the session is returned as
  it was, whether or not a connection exists. With a truthy candidate and a connection
  in place, \<^verbatim>\<open>ice\<close> wraps the candidate in a \<^verbatim>\<open>Candidate\<close> and adds it to the
  connection, and does nothing else; without a connection the read of
  \<^verbatim>\<open>this.connection.addIceCandidate\<close> raises.
\<close>

theorem ice_falsy_noop_truthy_adds:
  "(\<not> truthy candidate \<longrightarrow> ice candidate p = Inr p) \<and>
   (truthy candidate \<longrightarrow> connection p = Some c \<longrightarrow>
      ice candidate p = Inr (p\<lparr>log := log p @ [AddIceCandidate (NewCandidate candidate)]\<rparr>)) \<and>
   (truthy candidate \<longrightarrow> connection p = None \<longrightarrow> ice candidate p = Inl TypeError)"
  by (simp add: ice_def)

theorem ice_falsy_noop_truthy_adds_witness:
  "\<not> truthy JNull \<and> ice JNull Peer = Inr Peer \<and>
   \<not> truthy JUndefined \<and> ice JUndefined (create Peer) = Inr (create Peer) \<and>
   truthy (JObj [(''candidate'', JStr ''candidate:1 1 udp'')]) \<and>
   connection (create Peer) =
     Some \<lparr>onaddstream = True, onicecandidate = True, ongatheringchange = True,
           ondatachannel = False, channels = 0\<rparr> \<and>
   ice (JObj [(''candidate'', JStr ''candidate:1 1 udp'')]) (create Peer) =
     Inr ((create Peer)\<lparr>log := [NewPeerConnection, Emit ''create'' [],
            AddIceCandidate (NewCandidate (JObj [(''candidate'', JStr ''candidate:1 1 udp'')]))]\<rparr>) \<and>
   connection Peer = None \<and>
   ice (JObj [(''candidate'', JStr ''candidate:1 1 udp'')]) Peer = Inl TypeError"
  using ice_falsy_noop_truthy_adds [of JNull Peer]
    ice_falsy_noop_truthy_adds [of JUndefined "create Peer"]
    ice_falsy_noop_truthy_adds [of "JObj [(''candidate'', JStr ''candidate:1 1 udp'')]" "create Peer"
      "\<lparr>onaddstream = True, onicecandidate = True, ongatheringchange = True,
        ondatachannel = False, channels = 0\<rparr>"]
    ice_falsy_noop_truthy_adds [of "JObj [(''candidate'', JStr ''candidate:1 1 udp'')]" Peer]
  by (simp add: create_def Peer_def emit_def)

end
